theory Spec2Isabelle
  imports Complex_Main
begin

section \<open>Python and numpy values\<close>

text \<open>
  The exceptions the modelled code can raise. A computation that may raise returns
  \<open>error + 'a\<close>, with \<open>Inl\<close> for the exception.
\<close>

datatype error = ValueError | IndexError | NameError | TypeError | AttributeError

type_synonym 'a result = "error + 'a"

definition rbind :: "'a result \<Rightarrow> ('a \<Rightarrow> 'b result) \<Rightarrow> 'b result" where
  "rbind r f = (case r of Inl e \<Rightarrow> Inl e | Inr x \<Rightarrow> f x)"

text \<open>
  A float64 as numpy computes with it. Finite values are idealised as exact reals (no
  rounding, no overflow, one unsigned zero); the special values appear where numpy produces
  them with a warning instead of an exception: division by zero and arithmetic on
  infinities. A zero divisor counts as \<open>+0.0\<close>.
\<close>

datatype npfloat = Fin real | PInf | NInf | NaN

instantiation npfloat :: "{zero, one, uminus, plus, minus, times, inverse}"
begin

definition zero_npfloat :: npfloat where
  "zero_npfloat = Fin 0"

definition one_npfloat :: npfloat where
  "one_npfloat = Fin 1"

definition uminus_npfloat :: "npfloat \<Rightarrow> npfloat" where
  "uminus_npfloat a = (case a of Fin x \<Rightarrow> Fin (- x) | PInf \<Rightarrow> NInf | NInf \<Rightarrow> PInf | NaN \<Rightarrow> NaN)"

definition plus_npfloat :: "npfloat \<Rightarrow> npfloat \<Rightarrow> npfloat" where
  "plus_npfloat a b =
     (case a of
        NaN \<Rightarrow> NaN
      | Fin x \<Rightarrow> (case b of Fin y \<Rightarrow> Fin (x + y) | PInf \<Rightarrow> PInf | NInf \<Rightarrow> NInf | NaN \<Rightarrow> NaN)
      | PInf \<Rightarrow> (case b of Fin y \<Rightarrow> PInf | PInf \<Rightarrow> PInf | NInf \<Rightarrow> NaN | NaN \<Rightarrow> NaN)
      | NInf \<Rightarrow> (case b of Fin y \<Rightarrow> NInf | PInf \<Rightarrow> NaN | NInf \<Rightarrow> NInf | NaN \<Rightarrow> NaN))"

definition minus_npfloat :: "npfloat \<Rightarrow> npfloat \<Rightarrow> npfloat" where
  "minus_npfloat a b = a + (- b)"

definition times_npfloat :: "npfloat \<Rightarrow> npfloat \<Rightarrow> npfloat" where
  "times_npfloat a b =
     (case a of
        NaN \<Rightarrow> NaN
      | Fin x \<Rightarrow>
          (case b of
             Fin y \<Rightarrow> Fin (x * y)
           | PInf \<Rightarrow> (if x = 0 then NaN else if 0 < x then PInf else NInf)
           | NInf \<Rightarrow> (if x = 0 then NaN else if 0 < x then NInf else PInf)
           | NaN \<Rightarrow> NaN)
      | PInf \<Rightarrow>
          (case b of
             Fin y \<Rightarrow> (if y = 0 then NaN else if 0 < y then PInf else NInf)
           | PInf \<Rightarrow> PInf
           | NInf \<Rightarrow> NInf
           | NaN \<Rightarrow> NaN)
      | NInf \<Rightarrow>
          (case b of
             Fin y \<Rightarrow> (if y = 0 then NaN else if 0 < y then NInf else PInf)
           | PInf \<Rightarrow> NInf
           | NInf \<Rightarrow> PInf
           | NaN \<Rightarrow> NaN))"

definition divide_npfloat :: "npfloat \<Rightarrow> npfloat \<Rightarrow> npfloat" where
  "divide_npfloat a b =
     (case a of
        NaN \<Rightarrow> NaN
      | Fin x \<Rightarrow>
          (case b of
             Fin y \<Rightarrow>
               (if y = 0 then (if x = 0 then NaN else if 0 < x then PInf else NInf)
                else Fin (x / y))
           | PInf \<Rightarrow> Fin 0
           | NInf \<Rightarrow> Fin 0
           | NaN \<Rightarrow> NaN)
      | PInf \<Rightarrow> (case b of Fin y \<Rightarrow> (if y < 0 then NInf else PInf) | PInf \<Rightarrow> NaN | NInf \<Rightarrow> NaN | NaN \<Rightarrow> NaN)
      | NInf \<Rightarrow> (case b of Fin y \<Rightarrow> (if y < 0 then PInf else NInf) | PInf \<Rightarrow> NaN | NInf \<Rightarrow> NaN | NaN \<Rightarrow> NaN))"

definition inverse_npfloat :: "npfloat \<Rightarrow> npfloat" where
  "inverse_npfloat a = divide (Fin 1) a"

instance ..

end

text \<open>\<open>x ** n\<close> on a float64 with a literal integer exponent.\<close>

fun npfloat_power :: "npfloat \<Rightarrow> nat \<Rightarrow> npfloat" where
  "npfloat_power a 0 = Fin 1"
| "npfloat_power a (Suc n) = a * npfloat_power a n"

text \<open>
  \<open>np.power(x, m)\<close> on a finite float64 base with a real exponent: defined through
  \<open>powr\<close> on a positive base; a zero base gives 1, 0 or \<open>inf\<close> by the sign of the
  exponent; a negative base has a value only at an integral exponent and is \<open>nan\<close> otherwise.
\<close>

definition np_power :: "real \<Rightarrow> real \<Rightarrow> npfloat" where
  "np_power x m =
     (if 0 < x then Fin (x powr m)
      else if x = 0 then (if m = 0 then Fin 1 else if 0 < m then Fin 0 else PInf)
      else if m = of_int \<lfloor>m\<rfloor>
        then Fin (if even \<lfloor>m\<rfloor> then (- x) powr m else - ((- x) powr m))
      else NaN)"

subsection \<open>Arrays\<close>

text \<open>
  A one-dimensional float array is a list, a two-dimensional one the list of its rows.
  Binary element-wise operations broadcast a one-element operand and raise
  \<open>ValueError\<close> on any other length mismatch.
\<close>

definition np_zeros :: "nat \<Rightarrow> 'a::zero list" where
  "np_zeros n = replicate n 0"

definition np_ones :: "nat \<Rightarrow> 'a::one list" where
  "np_ones n = replicate n 1"

definition broadcast :: "('a \<Rightarrow> 'a \<Rightarrow> 'b) \<Rightarrow> 'a list \<Rightarrow> 'a list \<Rightarrow> 'b list result" where
  "broadcast f xs ys =
     (if length xs = length ys then Inr (map2 f xs ys)
      else if length xs = 1 then Inr (map (f (hd xs)) ys)
      else if length ys = 1 then Inr (map (\<lambda>x. f x (hd ys)) xs)
      else Inl ValueError)"

definition np_multiply :: "'a::times list \<Rightarrow> 'a list \<Rightarrow> 'a list result" where
  "np_multiply xs ys = broadcast (*) xs ys"

definition np_divide :: "'a::inverse list \<Rightarrow> 'a list \<Rightarrow> 'a list result" where
  "np_divide xs ys = broadcast (/) xs ys"

definition np_logical_and :: "bool list \<Rightarrow> bool list \<Rightarrow> bool list result" where
  "np_logical_and xs ys = broadcast (\<and>) xs ys"

text \<open>A one-dimensional operand against every row of a two-dimensional one.\<close>

fun np_multiply_1d_2d :: "'a::times list \<Rightarrow> 'a list list \<Rightarrow> 'a list list result" where
  "np_multiply_1d_2d v [] = Inr []"
| "np_multiply_1d_2d v (r # rs) =
     rbind (np_multiply v r) (\<lambda>p. rbind (np_multiply_1d_2d v rs) (\<lambda>ps. Inr (p # ps)))"

fun np_multiply_2d_1d :: "'a::times list list \<Rightarrow> 'a list \<Rightarrow> 'a list list result" where
  "np_multiply_2d_1d [] v = Inr []"
| "np_multiply_2d_1d (r # rs) v =
     rbind (np_multiply r v) (\<lambda>p. rbind (np_multiply_2d_1d rs v) (\<lambda>ps. Inr (p # ps)))"

text \<open>\<open>np.dot\<close> of two one-dimensional arrays: no broadcasting.\<close>

definition np_dot :: "real list \<Rightarrow> real list \<Rightarrow> real result" where
  "np_dot xs ys =
     (if length xs = length ys then Inr (sum_list (map2 (*) xs ys)) else Inl ValueError)"

text \<open>\<open>np.cumsum\<close>: the running sums, in order.\<close>

fun cumsum_from :: "real \<Rightarrow> real list \<Rightarrow> real list" where
  "cumsum_from acc [] = []"
| "cumsum_from acc (x # xs) = (acc + x) # cumsum_from (acc + x) xs"

definition np_cumsum :: "real list \<Rightarrow> real list" where
  "np_cumsum xs = cumsum_from 0 xs"

text \<open>
  Indexing as Python does it: a negative index counts from the end, anything out of
  range raises \<open>IndexError\<close>.
\<close>

definition getitem :: "'a list \<Rightarrow> int \<Rightarrow> 'a result" where
  "getitem xs i =
     (let n = int (length xs) in
      if 0 \<le> i \<and> i < n then Inr (xs ! nat i)
      else if - n \<le> i \<and> i < 0 then Inr (xs ! nat (n + i))
      else Inl IndexError)"

definition setitem :: "'a list \<Rightarrow> nat \<Rightarrow> 'a \<Rightarrow> 'a list result" where
  "setitem xs i v = (if i < length xs then Inr (xs[i := v]) else Inl IndexError)"

text \<open>
  \<open>a[i] = v\<close> with \<open>a\<close> a one-dimensional float array and \<open>v\<close> a two-dimensional array:
  only an array of exactly one element converts to a scalar; any other raises
  \<open>ValueError\<close> (setting an array element with a sequence).
\<close>

definition setitem_array :: "'a list \<Rightarrow> nat \<Rightarrow> 'a list list \<Rightarrow> 'a list result" where
  "setitem_array xs i v = (case v of [[x]] \<Rightarrow> setitem xs i x | _ \<Rightarrow> Inl ValueError)"

text \<open>\<open>a[mask]\<close> with a boolean mask: the mask must have the length of the array.\<close>

definition bool_index :: "'a list \<Rightarrow> bool list \<Rightarrow> 'a list result" where
  "bool_index xs filt =
     (if length filt = length xs then Inr (map fst (filter snd (zip xs filt)))
      else Inl IndexError)"

text \<open>\<open>list.index(v)\<close>: the first position of \<open>v\<close>, \<open>ValueError\<close> when it is absent.\<close>

fun list_index :: "'a list \<Rightarrow> 'a \<Rightarrow> nat result" where
  "list_index [] v = Inl ValueError"
| "list_index (x # xs) v =
     (if x = v then Inr 0 else rbind (list_index xs v) (\<lambda>i. Inr (Suc i)))"

text \<open>
  Loops over \<open>range(...)\<close>. The first runs a body that returns a new value of a local
  variable or raises; the second a body that mutates the object and may raise, the
  mutations made before the exception staying in the state.
\<close>

fun for_each :: "nat list \<Rightarrow> (nat \<Rightarrow> 'a \<Rightarrow> 'a result) \<Rightarrow> 'a \<Rightarrow> 'a result" where
  "for_each [] body a = Inr a"
| "for_each (t # ts) body a = rbind (body t a) (for_each ts body)"

fun for_range :: "nat list \<Rightarrow> (nat \<Rightarrow> 's \<Rightarrow> error option \<times> 's) \<Rightarrow> 's \<Rightarrow> error option \<times> 's" where
  "for_range [] body s = (None, s)"
| "for_range (t # ts) body s =
     (case body t s of
        (Some e, s') \<Rightarrow> (Some e, s')
      | (None, s') \<Rightarrow> for_range ts body s')"

section \<open>The DropSizeDistribution object\<close>

text \<open>
  The attributes of the object. \<open>time\<close>, \<open>Nd\<close>, \<open>spread\<close>, \<open>bin_edges\<close> and
  \<open>diameter\<close> are the arrays a reader supplies; \<open>rain_rate\<close>, \<open>velocity\<close>, \<open>Z\<close> and
  \<open>num_particles\<close> default to \<open>None\<close>. The attributes \<open>Nt\<close> to \<open>Dm\<close> are
  \<open>None\<close> as long as the object has no such attribute.
\<close>

record dsd =
  time :: "real list"
  Nd :: "real list list"
  spread :: "real list"
  rain_rate :: "real list option"
  velocity :: "real list option"
  Z :: "real list option"
  num_particles :: "real list option"
  bin_edges :: "real list"
  diameter :: "real list"
  Zh :: "real list"
  Zdr :: "real list"
  Kdp :: "real list"
  Ai :: "real list"
  Nt :: "npfloat list option"
  W :: "npfloat list option"
  D0 :: "npfloat list option"
  Nw :: "npfloat list option"
  Dmax :: "npfloat list option"
  Dm :: "npfloat list option"

text \<open>Reading \<open>self.a[t]\<close> and writing \<open>self.a[t] = v\<close> on an attribute that may be absent.\<close>

definition attr_get :: "'a list option \<Rightarrow> nat \<Rightarrow> 'a result" where
  "attr_get a t =
     (case a of None \<Rightarrow> Inl AttributeError | Some xs \<Rightarrow> getitem xs (int t))"

definition attr_set :: "'a list option \<Rightarrow> nat \<Rightarrow> 'a \<Rightarrow> 'a list option result" where
  "attr_set a t v =
     (case a of
        None \<Rightarrow> Inl AttributeError
      | Some xs \<Rightarrow> rbind (setitem xs t v) (\<lambda>ys. Inr (Some ys)))"

subsection \<open>\<open>__init__\<close>\<close>

definition init ::
  "real list \<Rightarrow> real list list \<Rightarrow> real list \<Rightarrow> real list option \<Rightarrow> real list option \<Rightarrow>
   real list option \<Rightarrow> real list option \<Rightarrow> real list \<Rightarrow> real list \<Rightarrow> dsd" where
  "init time' Nd' spread' rain_rate' velocity' Z' num_particles' bin_edges' diameter' =
     (let lt = length time' in
      \<lparr> time = time', Nd = Nd', spread = spread', rain_rate = rain_rate',
        velocity = velocity', Z = Z', num_particles = num_particles',
        bin_edges = bin_edges', diameter = diameter',
        Zh = np_zeros lt, Zdr = np_zeros lt, Kdp = np_zeros lt, Ai = np_zeros lt,
        Nt = None, W = None, D0 = None, Nw = None, Dmax = None, Dm = None \<rparr>)"

subsection \<open>\<open>_calc_mth_moment\<close>\<close>

text \<open>
  The body of the loop assigns to \<open>mth_moment[t]\<close> the element-wise product of
  \<open>dmth\<close>, the whole matrix \<open>self.Nd\<close> and \<open>bin_width\<close>.
\<close>

definition calc_mth_moment_step ::
  "dsd \<Rightarrow> real \<Rightarrow> real list \<Rightarrow> nat \<Rightarrow> npfloat list \<Rightarrow> npfloat list result" where
  "calc_mth_moment_step s m bin_width t mth_moment =
     (let dmth = map (\<lambda>d. np_power d m) (diameter s) in
      rbind (np_multiply_1d_2d dmth (map (map Fin) (Nd s))) (\<lambda>a.
      rbind (np_multiply_2d_1d a (map Fin bin_width)) (\<lambda>v.
      setitem_array mth_moment t v)))"

definition calc_mth_moment :: "dsd \<Rightarrow> real \<Rightarrow> npfloat list result" where
  "calc_mth_moment s m =
     (let bin_width = map (\<lambda>i. bin_edges s ! (i + 1) - bin_edges s ! i)
                          [0 ..< length (bin_edges s) - 1];
          mth_moment = np_zeros (length (time s))
      in for_each [0 ..< length (time s)] (calc_mth_moment_step s m bin_width) mth_moment)"

subsection \<open>\<open>__get_last_nonzero\<close> and \<open>_calculate_D0\<close>\<close>

text \<open>
  \<open>N.nonzero()\<close> lists the positions of the non-zero entries in ascending order;
  \<open>np.max\<close> of an empty array raises \<open>ValueError\<close>.
\<close>

definition nonzero :: "real list \<Rightarrow> nat list" where
  "nonzero N = filter (\<lambda>i. N ! i \<noteq> 0) [0 ..< length N]"

definition np_max :: "nat list \<Rightarrow> nat result" where
  "np_max xs = (case xs of [] \<Rightarrow> Inl ValueError | x # ys \<Rightarrow> Inr (fold max ys x))"

definition get_last_nonzero :: "real list \<Rightarrow> nat result" where
  "get_last_nonzero N = np_max (nonzero N)"

definition W_const :: real where
  "W_const = 1 / 10 ^ 3 * pi / 6"

text \<open>
  The list comprehension reads \<open>spread[k]\<close> and \<open>diameter[k]\<close> for every \<open>k\<close> below
  \<open>len(N)\<close>, so a shorter \<open>spread\<close> or \<open>diameter\<close> raises \<open>IndexError\<close>.
\<close>

definition water_terms :: "dsd \<Rightarrow> real list \<Rightarrow> real list result" where
  "water_terms s N =
     (if length N \<le> length (spread s) \<and> length N \<le> length (diameter s)
      then Inr (map (\<lambda>k. N ! k * spread s ! k * diameter s ! k ^ 3) [0 ..< length N])
      else Inl IndexError)"

definition calculate_D0 :: "dsd \<Rightarrow> real list \<Rightarrow> npfloat result" where
  "calculate_D0 s N =
     rbind (water_terms s N) (\<lambda>terms.
     let cum_W = map (\<lambda>x. W_const * x) (np_cumsum terms) in
     rbind (getitem cum_W (- 1)) (\<lambda>total.
     rbind (list_index (map (\<lambda>x. x < total * 0.5) cum_W) False) (\<lambda>k.
     let cross_pt = int k - 1 in
     rbind (getitem cum_W (cross_pt + 1)) (\<lambda>cw_hi.
     rbind (getitem cum_W cross_pt) (\<lambda>cw_lo.
     rbind (getitem (diameter s) (cross_pt + 1)) (\<lambda>d_hi.
     rbind (getitem (diameter s) cross_pt) (\<lambda>d_lo.
     let slope = Fin (cw_hi - cw_lo) / Fin (d_hi - d_lo) in
     rbind (getitem cum_W (- 1)) (\<lambda>total'.
     rbind (getitem cum_W cross_pt) (\<lambda>cw_lo'.
     let run = Fin (0.5 * total' - cw_lo') / slope in
     rbind (getitem (diameter s) cross_pt) (\<lambda>d.
     Inr (Fin d + run)))))))))))"

subsection \<open>\<open>calc_dsd_parameterization\<close>\<close>

text \<open>
  The module imports numpy as \<open>np\<close> only and binds no name \<open>array\<close>: evaluating
  \<open>array(self.diameter)\<close> raises \<open>NameError\<close>.
\<close>

definition array :: "real list \<Rightarrow> real list result" where
  "array xs = Inl NameError"

definition rho_w :: real where
  "rho_w = 1"

definition vol_constant :: real where
  "vol_constant = 10 / 10 ^ 3 * pi / 6 * rho_w"

definition calc_dsd_parameterization_step :: "nat \<Rightarrow> dsd \<Rightarrow> error option \<times> dsd" where
  "calc_dsd_parameterization_step t s =
     (case rbind (getitem (Nd s) (int t)) (\<lambda>Nd_t.
           rbind (np_dot (spread s) Nd_t) (\<lambda>x.
           attr_set (Nt s) t (Fin x))) of
        Inl e \<Rightarrow> (Some e, s)
      | Inr a1 \<Rightarrow>
     let s1 = s\<lparr>Nt := a1\<rparr> in
     (case rbind (getitem (Nd s1) (int t)) (\<lambda>Nd_t.
           rbind (np_multiply Nd_t (spread s1)) (\<lambda>p.
           rbind (array (diameter s1)) (\<lambda>d.
           rbind (np_dot p (map (\<lambda>x. x ^ 3) d)) (\<lambda>x.
           attr_set (W s1) t (Fin (vol_constant * x)))))) of
        Inl e \<Rightarrow> (Some e, s1)
      | Inr a2 \<Rightarrow>
     let s2 = s1\<lparr>W := a2\<rparr> in
     (case rbind (getitem (Nd s2) (int t)) (\<lambda>Nd_t.
           rbind (calculate_D0 s2 Nd_t) (\<lambda>x.
           attr_set (D0 s2) t x)) of
        Inl e \<Rightarrow> (Some e, s2)
      | Inr a3 \<Rightarrow>
     let s3 = s2\<lparr>D0 := a3\<rparr> in
     (case rbind (attr_get (W s3) t) (\<lambda>w.
           rbind (attr_get (Dm s3) t) (\<lambda>dm.
           attr_set (Nw s3) t (Fin (256 / (pi * rho_w)) * (w / npfloat_power dm 4)))) of
        Inl e \<Rightarrow> (Some e, s3)
      | Inr a4 \<Rightarrow>
     let s4 = s3\<lparr>Nw := a4\<rparr> in
     (case rbind (getitem (Nd s4) (int t)) (\<lambda>Nd_t.
           rbind (get_last_nonzero Nd_t) (\<lambda>i.
           rbind (getitem (diameter s4) (int i)) (\<lambda>d.
           attr_set (Dmax s4) t (Fin d)))) of
        Inl e \<Rightarrow> (Some e, s4)
      | Inr a5 \<Rightarrow> (None, s4\<lparr>Dmax := a5\<rparr>))))))"

definition calc_dsd_parameterization :: "string \<Rightarrow> dsd \<Rightarrow> error option \<times> dsd" where
  "calc_dsd_parameterization method s =
     (let lt = length (time s);
          s0 = s\<lparr>Nt := Some (np_zeros lt), W := Some (np_zeros lt), D0 := Some (np_zeros lt),
                 Nw := Some (np_zeros lt), Dmax := Some (np_zeros lt), Dm := Some (np_zeros lt)\<rparr>
      in case rbind (calc_mth_moment s0 4) (\<lambda>m4.
              rbind (calc_mth_moment s0 3) (\<lambda>m3.
              np_divide m4 m3)) of
           Inl e \<Rightarrow> (Some e, s0)
         | Inr dm \<Rightarrow> for_range [0 ..< lt] calc_dsd_parameterization_step (s0\<lparr>Dm := Some dm\<rparr>))"

subsection \<open>\<open>calculate_RR\<close>\<close>

text \<open>
  \<open>_mmultiply(*args)\<close> starts from an array of ones as long as the first argument and
  multiplies the arguments in, one after the other.
\<close>

fun mmultiply_loop :: "real list list \<Rightarrow> real list \<Rightarrow> real list result" where
  "mmultiply_loop [] i_value = Inr i_value"
| "mmultiply_loop (i # args) i_value = rbind (np_multiply i_value i) (mmultiply_loop args)"

definition mmultiply :: "real list list \<Rightarrow> real list result" where
  "mmultiply args =
     rbind (getitem args 0) (\<lambda>a0. mmultiply_loop args (np_ones (length a0)))"

definition calculate_RR_step :: "nat \<Rightarrow> dsd \<Rightarrow> error option \<times> dsd" where
  "calculate_RR_step t s =
     (let velocity = map (\<lambda>d. 9.65 - 10.3 * exp (- 0.6 * d)) (diameter s) in
      case rbind (setitem velocity 0 0.5) (\<lambda>velocity.
           rbind (getitem (Nd s) (int t)) (\<lambda>Nd_t.
           rbind (mmultiply [velocity, Nd_t, spread s, map (\<lambda>d. d ^ 3) (diameter s)]) (\<lambda>p.
           attr_set (rain_rate s) t (0.6 * pi * (1 / 10 ^ 3) * sum_list p)))) of
        Inl e \<Rightarrow> (Some e, s)
      | Inr a \<Rightarrow> (None, s\<lparr>rain_rate := a\<rparr>))"

definition calculate_RR :: "dsd \<Rightarrow> error option \<times> dsd" where
  "calculate_RR s =
     for_range [0 ..< length (time s)] calculate_RR_step
       (s\<lparr>rain_rate := Some (np_zeros (length (time s)))\<rparr>)"

subsection \<open>The relationship fits\<close>

text \<open>
  \<open>expfit\<close> and \<open>expfit2\<close> come from a module of their own; the entry points are
  modelled for any such pair of functions, which they take as a parameter. A comparison
  \<open>a > 0\<close> gives the boolean array of the positions with a positive entry; on a
  \<open>rain_rate\<close> that is still \<open>None\<close> the entry point raises \<open>TypeError\<close> before it
  reaches the fit.
\<close>

definition greater0 :: "real list \<Rightarrow> bool list" where
  "greater0 xs = map (\<lambda>x. 0 < x) xs"

definition idb :: "real list \<Rightarrow> real list" where
  "idb db = map (\<lambda>x. 10 powr (0.1 * x)) db"

definition calc_R_kdp_relationship ::
  "(real list \<Rightarrow> real list \<Rightarrow> 'r) \<Rightarrow> dsd \<Rightarrow> 'r result" where
  "calc_R_kdp_relationship expfit s =
     (case rain_rate s of
        None \<Rightarrow> Inl TypeError
      | Some rr \<Rightarrow>
          rbind (np_logical_and (greater0 (Kdp s)) (greater0 rr)) (\<lambda>filt.
          rbind (bool_index (Kdp s) filt) (\<lambda>x.
          rbind (bool_index rr filt) (\<lambda>y.
          Inr (expfit x y)))))"

definition calc_R_Zh_relationship ::
  "(real list \<Rightarrow> real list \<Rightarrow> 'r) \<Rightarrow> dsd \<Rightarrow> 'r result" where
  "calc_R_Zh_relationship expfit s =
     (case rain_rate s of
        None \<Rightarrow> Inl TypeError
      | Some rr \<Rightarrow>
          rbind (bool_index (Zh s) (greater0 rr)) (\<lambda>zh.
          rbind (bool_index rr (greater0 rr)) (\<lambda>y.
          Inr (expfit (map (\<lambda>x. 10 powr (0.1 * x)) zh) y))))"

definition relationship_filt :: "dsd \<Rightarrow> real list \<Rightarrow> bool list result" where
  "relationship_filt s rr =
     rbind (np_logical_and (greater0 rr) (greater0 (Zdr s))) (\<lambda>a.
     np_logical_and a (greater0 (Kdp s)))"

definition calc_R_Zh_Zdr_relationship ::
  "(real list list \<Rightarrow> real list \<Rightarrow> 'r) \<Rightarrow> dsd \<Rightarrow> 'r result" where
  "calc_R_Zh_Zdr_relationship expfit2 s =
     (case rain_rate s of
        None \<Rightarrow> Inl TypeError
      | Some rr \<Rightarrow>
          rbind (relationship_filt s rr) (\<lambda>filt.
          rbind (bool_index (Zh s) filt) (\<lambda>zh.
          rbind (bool_index (Zdr s) filt) (\<lambda>zdr.
          rbind (bool_index rr filt) (\<lambda>y.
          Inr (expfit2 [idb zh, idb zdr] y))))))"

definition calc_R_Zh_Kdp_relationship ::
  "(real list list \<Rightarrow> real list \<Rightarrow> 'r) \<Rightarrow> dsd \<Rightarrow> 'r result" where
  "calc_R_Zh_Kdp_relationship expfit2 s =
     (case rain_rate s of
        None \<Rightarrow> Inl TypeError
      | Some rr \<Rightarrow>
          rbind (relationship_filt s rr) (\<lambda>filt.
          rbind (bool_index (Zh s) filt) (\<lambda>zh.
          rbind (bool_index (Kdp s) filt) (\<lambda>kdp.
          rbind (bool_index rr filt) (\<lambda>y.
          Inr (expfit2 [idb zh, kdp] y))))))"

definition calc_R_Zdr_Kdp_relationship ::
  "(real list list \<Rightarrow> real list \<Rightarrow> 'r) \<Rightarrow> dsd \<Rightarrow> 'r result" where
  "calc_R_Zdr_Kdp_relationship expfit2 s =
     (case rain_rate s of
        None \<Rightarrow> Inl TypeError
      | Some rr \<Rightarrow>
          rbind (relationship_filt s rr) (\<lambda>filt.
          rbind (bool_index (Zdr s) filt) (\<lambda>zdr.
          rbind (bool_index (Kdp s) filt) (\<lambda>kdp.
          rbind (bool_index rr filt) (\<lambda>y.
          Inr (expfit2 [idb zdr, kdp] y))))))"

section \<open>The statements of the specification\<close>

text \<open>
  The quantities the specification names, written from its words, and the concrete
  objects the theorems are evaluated at.
\<close>

definition moment_spec :: "dsd \<Rightarrow> real \<Rightarrow> nat \<Rightarrow> real" where
  "moment_spec s m t =
     (\<Sum>i<length (diameter s). diameter s ! i powr m * Nd s ! t ! i * spread s ! i)"

definition velocity_model :: "dsd \<Rightarrow> nat \<Rightarrow> real" where
  "velocity_model s i = (if i = 0 then 0.5 else 9.65 - 10.3 * exp (- 0.6 * diameter s ! i))"

definition rain_rate_spec :: "dsd \<Rightarrow> nat \<Rightarrow> real" where
  "rain_rate_spec s t =
     0.6 * pi * (1 / 10 ^ 3) *
       (\<Sum>i<length (diameter s).
          velocity_model s i * Nd s ! t ! i * spread s ! i * diameter s ! i ^ 3)"

definition cumW_spec :: "real \<Rightarrow> dsd \<Rightarrow> real list \<Rightarrow> nat \<Rightarrow> real" where
  "cumW_spec c s N k = c * (\<Sum>j\<le>k. N ! j * spread s ! j * diameter s ! j ^ 3)"

text \<open>\<open>k\<close> is the smallest index at which the cumulative curve reaches half of its total.\<close>

definition half_mass_bin :: "real \<Rightarrow> dsd \<Rightarrow> real list \<Rightarrow> nat \<Rightarrow> bool" where
  "half_mass_bin c s N k \<longleftrightarrow>
     k < length N \<and> 0.5 * cumW_spec c s N (length N - 1) \<le> cumW_spec c s N k \<and>
     (\<forall>j<k. cumW_spec c s N j < 0.5 * cumW_spec c s N (length N - 1))"

definition D0_spec :: "real \<Rightarrow> dsd \<Rightarrow> real list \<Rightarrow> nat \<Rightarrow> npfloat" where
  "D0_spec c s N cross =
     Fin (diameter s ! cross) +
     Fin (0.5 * cumW_spec c s N (length N - 1) - cumW_spec c s N cross) /
       (Fin (cumW_spec c s N (cross + 1) - cumW_spec c s N cross) /
        Fin (diameter s ! (cross + 1) - diameter s ! cross))"

text \<open>The timesteps below \<open>T\<close> that a filter keeps, in order.\<close>

definition kept :: "(nat \<Rightarrow> bool) \<Rightarrow> nat \<Rightarrow> nat list" where
  "kept P T = filter P [0 ..< T]"

text \<open>The rows each family of fits is declared to use, and the conversion from dB.\<close>

definition kdp_rows :: "dsd \<Rightarrow> real list \<Rightarrow> nat list" where
  "kdp_rows s rr = kept (\<lambda>t. 0 < Kdp s ! t \<and> 0 < rr ! t) (length rr)"

definition rain_rows :: "real list \<Rightarrow> nat list" where
  "rain_rows rr = kept (\<lambda>t. 0 < rr ! t) (length rr)"

definition radar_rows :: "dsd \<Rightarrow> real list \<Rightarrow> nat list" where
  "radar_rows s rr = kept (\<lambda>t. 0 < rr ! t \<and> 0 < Zdr s ! t \<and> 0 < Kdp s ! t) (length rr)"

definition linear :: "real \<Rightarrow> real" where
  "linear x = 10 powr (0.1 * x)"

text \<open>Each of the six parameter attributes exists and is an array of length \<open>T\<close>.\<close>

definition params_sized :: "nat \<Rightarrow> dsd \<Rightarrow> bool" where
  "params_sized T s \<longleftrightarrow>
     map_option length (Nt s) = Some T \<and> map_option length (W s) = Some T \<and>
     map_option length (D0 s) = Some T \<and> map_option length (Nw s) = Some T \<and>
     map_option length (Dmax s) = Some T \<and> map_option length (Dm s) = Some T"

text \<open>
  The end-to-end scenario of the specification: one timestep, four bins of width 1 with
  edges 0 to 4 and the concentrations 0, 10, 5, 0.
\<close>

definition scenario :: dsd where
  "scenario =
     init [0] [[0, 10, 5, 0]] [1, 1, 1, 1] None None None None
       [0, 1, 2, 3, 4] [0.5, 1.5, 2.5, 3.5]"

text \<open>The same bins with nearly all the water in the first one.\<close>

definition first_bin_heavy :: dsd where
  "first_bin_heavy =
     init [0] [[100, 1, 0, 0]] [1, 1, 1, 1] None None None None
       [0, 1, 2, 3, 4] [0.5, 1.5, 2.5, 3.5]"

text \<open>The same bins with all the drops in the first one.\<close>

definition bin0_only :: dsd where
  "bin0_only =
     init [0] [[8, 0, 0, 0]] [1, 1, 1, 1] (Some [7]) None None None
       [0, 1, 2, 3, 4] [0.5, 1.5, 2.5, 3.5]"

text \<open>Three timesteps with radar observables and rain rates of both signs.\<close>

definition radar_case :: dsd where
  "radar_case =
     (init [0, 1, 2] [[0, 10, 5, 0], [0, 10, 5, 0], [0, 10, 5, 0]] [1, 1, 1, 1]
        None None None None [0, 1, 2, 3, 4] [0.5, 1.5, 2.5, 3.5])
     \<lparr>rain_rate := Some [2, 5, 0], Zh := [10, 20, 30], Zdr := [10, - 1, 1], Kdp := [1, - 2, 3]\<rparr>"

section \<open>Auxiliary facts\<close>

subsection \<open>Loops, indexing and arrays\<close>

lemma for_range_append:
  "for_range (xs @ ys) body s =
     (case for_range xs body s of (Some e, s') \<Rightarrow> (Some e, s') | (None, s') \<Rightarrow> for_range ys body s')"
  by (induction xs arbitrary: s) (auto split: prod.splits option.splits)

lemma for_range_invariant:
  assumes "\<And>t s. P s \<Longrightarrow> P (snd (body t s))"
  shows "P s \<Longrightarrow> P (snd (for_range ts body s))"
proof (induction ts arbitrary: s)
  case Nil
  then show ?case by simp
next
  case (Cons t ts)
  have "P (snd (body t s))" using Cons.prems by (rule assms)
  then show ?case
    using Cons.IH [of "snd (body t s)"]
    by (cases "body t s") (auto split: option.splits)
qed


lemma for_range_first_raises:
  assumes "fst (body t s) \<noteq> None"
  shows "fst (for_range (t # ts) body s) \<noteq> None"
  using assms by (cases "body t s") (auto split: option.splits)

lemma for_each_length:
  assumes "\<And>t a b. body t a = Inr b \<Longrightarrow> length b = length a"
  shows "for_each ts body a = Inr b \<Longrightarrow> length b = length a"
proof (induction ts arbitrary: a)
  case Nil
  then show ?case by simp
next
  case (Cons t ts)
  then show ?case
    by (auto simp: rbind_def split: sum.splits dest: assms)
qed

lemma setitem_length: "setitem xs i v = Inr ys \<Longrightarrow> length ys = length xs"
  by (auto simp: setitem_def split: if_splits)

lemma getitem_nat: "i < length xs \<Longrightarrow> getitem xs (int i) = Inr (xs ! i)"
  by (simp add: getitem_def)

lemma getitem_last: "xs \<noteq> [] \<Longrightarrow> getitem xs (- 1) = Inr (xs ! (length xs - 1))"
  by (cases xs) (simp_all add: getitem_def Let_def nat_diff_distrib' int_ops)

lemma list_index_first:
  "k < length xs \<Longrightarrow> xs ! k = v \<Longrightarrow> (\<And>j. j < k \<Longrightarrow> xs ! j \<noteq> v) \<Longrightarrow> list_index xs v = Inr k"
proof (induction xs arbitrary: k)
  case Nil
  then show ?case by simp
next
  case (Cons x xs)
  show ?case
  proof (cases k)
    case 0
    with Cons.prems show ?thesis by simp
  next
    case (Suc k')
    have "x \<noteq> v" using Cons.prems(3) [of 0] Suc by simp
    moreover have "list_index xs v = Inr k'"
    proof (rule Cons.IH)
      show "k' < length xs" using Cons.prems(1) Suc by simp
      show "xs ! k' = v" using Cons.prems(2) Suc by simp
      show "xs ! j \<noteq> v" if "j < k'" for j
        using Cons.prems(3) [of "Suc j"] that Suc by simp
    qed
    ultimately show ?thesis using Suc by (simp add: rbind_def)
  qed
qed

lemma length_cumsum_from [simp]: "length (cumsum_from a xs) = length xs"
  by (induction xs arbitrary: a) simp_all

lemma nth_cumsum_from:
  "k < length xs \<Longrightarrow> cumsum_from a xs ! k = a + (\<Sum>j\<le>k. xs ! j)"
proof (induction xs arbitrary: a k)
  case Nil
  then show ?case by simp
next
  case (Cons x xs)
  show ?case
  proof (cases k)
    case 0
    then show ?thesis by simp
  next
    case (Suc k')
    with Cons.prems have "k' < length xs" by simp
    then have "cumsum_from (a + x) xs ! k' = a + x + (\<Sum>j\<le>k'. xs ! j)"
      by (rule Cons.IH)
    then show ?thesis
      using Suc by (simp add: sum.atMost_Suc_shift del: sum.atMost_Suc)
  qed
qed

lemma sum_list_upt: "sum_list (map f [0 ..< n]) = (\<Sum>i<n. f i)"
  by (simp add: interv_sum_list_conv_sum_set_nat lessThan_atLeast0)

lemma np_multiply_same:
  "length xs = length ys \<Longrightarrow> np_multiply xs ys = Inr (map (\<lambda>i. xs ! i * ys ! i) [0 ..< length xs])"
  by (auto simp: np_multiply_def broadcast_def intro!: nth_equalityI)

lemma mmultiply4:
  assumes "length a = n" "length b = n" "length c = n" "length d = n"
  shows "mmultiply [a, b, c, d] = Inr (map (\<lambda>i. a ! i * b ! i * c ! i * d ! i) [0 ..< n])"
  using assms
  by (simp add: mmultiply_def getitem_def rbind_def np_multiply_same np_ones_def)

lemma np_divide_length:
  "length xs = length ys \<Longrightarrow> np_divide xs ys = Inr zs \<Longrightarrow> length zs = length ys"
  by (auto simp: np_divide_def broadcast_def)

lemma attr_set_length:
  "attr_set a t v = Inr a' \<Longrightarrow> map_option length a' = map_option length a"
  by (auto simp: attr_set_def rbind_def split: option.splits sum.splits dest: setitem_length)

lemma bool_index_kept:
  assumes "length filt = length xs"
  shows "bool_index xs filt = Inr (map ((!) xs) (filter ((!) filt) [0 ..< length xs]))"
proof -
  let ?n = "length xs"
  have "zip xs filt = zip (map ((!) xs) [0 ..< ?n]) (map ((!) filt) [0 ..< ?n])"
    using assms by (metis map_nth)
  also have "\<dots> = map (\<lambda>i. (xs ! i, filt ! i)) [0 ..< ?n]"
    by (simp add: zip_map_map zip_same_conv_map)
  finally have "zip xs filt = map (\<lambda>i. (xs ! i, filt ! i)) [0 ..< ?n]" .
  then have "map fst (filter snd (zip xs filt)) = map ((!) xs) (filter ((!) filt) [0 ..< ?n])"
    by (simp add: filter_map comp_def)
  then show ?thesis
    using assms by (simp add: bool_index_def)
qed

lemma filter_upt_cong:
  "(\<And>t. t < n \<Longrightarrow> P t = Q t) \<Longrightarrow> filter P [0 ..< n] = filter Q [0 ..< n]"
  by (rule filter_cong) simp_all

lemma bool_index_greater0:
  assumes "length ys = length xs"
  shows "bool_index xs (greater0 ys) = Inr (map ((!) xs) (kept (\<lambda>t. 0 < ys ! t) (length xs)))"
proof -
  have "filter ((!) (greater0 ys)) [0 ..< length xs] = filter (\<lambda>t. 0 < ys ! t) [0 ..< length xs]"
    by (rule filter_upt_cong) (simp add: greater0_def assms)
  then show ?thesis
    by (simp add: bool_index_kept assms greater0_def kept_def)
qed

lemma bool_index_map:
  assumes "length xs = n"
  shows "bool_index xs (map P [0 ..< n]) = Inr (map ((!) xs) (kept P n))"
proof -
  have "filter ((!) (map P [0 ..< n])) [0 ..< n] = filter P [0 ..< n]"
    by (rule filter_upt_cong) simp
  then show ?thesis
    using assms by (simp add: bool_index_kept kept_def)
qed

lemma logical_and_nth:
  assumes "length xs = length ys"
  shows "np_logical_and xs ys = Inr (map (\<lambda>t. xs ! t \<and> ys ! t) [0 ..< length xs])"
  using assms by (auto simp: np_logical_and_def broadcast_def intro!: nth_equalityI)

lemma and2_filt:
  assumes "length ys = length xs"
  shows "np_logical_and (greater0 xs) (greater0 ys) =
     Inr (map (\<lambda>t. 0 < xs ! t \<and> 0 < ys ! t) [0 ..< length xs])"
  using assms by (simp add: logical_and_nth greater0_def)

lemma relationship_filt_eq:
  assumes "length (Zdr s) = length rr" "length (Kdp s) = length rr"
  shows "relationship_filt s rr =
     Inr (map (\<lambda>t. 0 < rr ! t \<and> 0 < Zdr s ! t \<and> 0 < Kdp s ! t) [0 ..< length rr])"
  using assms
  by (simp add: relationship_filt_def and2_filt rbind_def logical_and_nth greater0_def conj_assoc)


subsection \<open>The moments\<close>

lemma np_multiply_1d_2d_rows:
  "list_all (\<lambda>r. length r = length v) rows \<Longrightarrow>
   np_multiply_1d_2d v rows = Inr (map (\<lambda>r. map2 (*) v r) rows)"
  by (induction rows) (simp_all add: np_multiply_def broadcast_def rbind_def)

lemma np_multiply_2d_1d_rows:
  "list_all (\<lambda>r. length r = length v) rows \<Longrightarrow>
   np_multiply_2d_1d rows v = Inr (map (\<lambda>r. map2 (*) r v) rows)"
  by (induction rows) (simp_all add: np_multiply_def broadcast_def rbind_def)

lemma setitem_array_raises:
  assumes "\<And>x. v \<noteq> [[x]]"
  shows "setitem_array xs i v = Inl ValueError"
  using assms by (auto simp: setitem_array_def split: list.splits)

text \<open>
  With at least one timestep and any shape of \<open>Nd\<close> other than one timestep by one bin,
  the first pass through the loop already raises.
\<close>

lemma calc_mth_moment_raises:
  assumes tm: "time s \<noteq> []"
    and nd: "length (Nd s) = length (time s)"
    and rows: "list_all (\<lambda>row. length row = length (diameter s)) (Nd s)"
    and be: "length (bin_edges s) = length (diameter s) + 1"
    and shape: "length (time s) * length (diameter s) \<noteq> 1"
  shows "calc_mth_moment s m = Inl ValueError"
proof -
  let ?T = "length (time s)" and ?n = "length (diameter s)"
  define dmth where "dmth = map (\<lambda>d. np_power d m) (diameter s)"
  define bwr where "bwr = map (\<lambda>i. bin_edges s ! (i + 1) - bin_edges s ! i)
                          [0 ..< length (bin_edges s) - 1]"
  define bw where "bw = map Fin bwr"
  define a where "a = map (\<lambda>r. map2 (*) dmth r) (map (map Fin) (Nd s))"
  define v where "v = map (\<lambda>r. map2 (*) r bw) a"
  have ld: "length dmth = ?n" by (simp add: dmth_def)
  have lb: "length bw = ?n" by (simp add: bw_def bwr_def be)
  have r1: "list_all (\<lambda>r. length r = length dmth) (map (map Fin) (Nd s))"
    using rows by (simp add: list_all_length ld)
  have m1: "np_multiply_1d_2d dmth (map (map Fin) (Nd s)) = Inr a"
    unfolding a_def by (rule np_multiply_1d_2d_rows [OF r1])
  have r2: "list_all (\<lambda>r. length r = length bw) a"
    using rows by (simp add: a_def list_all_length ld lb)
  have m2: "np_multiply_2d_1d a bw = Inr v"
    unfolding v_def by (rule np_multiply_2d_1d_rows [OF r2])
  have lv: "length v = ?T" by (simp add: v_def a_def nd)
  have lr: "length (v ! 0) = ?n"
    using tm rows nd by (simp add: v_def a_def list_all_length ld lb)
  have nv: "v \<noteq> [[x]]" for x
  proof
    assume "v = [[x]]"
    then have "length v = 1" "length (v ! 0) = 1" by simp_all
    with lv lr shape show False by simp
  qed
  have step: "calc_mth_moment_step s m bwr 0 acc = Inl ValueError" for acc
    unfolding calc_mth_moment_step_def Let_def dmth_def [symmetric] bw_def [symmetric]
    by (simp only: m1 m2 rbind_def sum.case setitem_array_raises [OF nv])
  have upt: "[0 ..< ?T] = 0 # [1 ..< ?T]"
    using tm by (simp add: upt_conv_Cons)
  have "calc_mth_moment s m = for_each [0 ..< ?T] (calc_mth_moment_step s m bwr) (np_zeros ?T)"
    unfolding calc_mth_moment_def Let_def bwr_def ..
  also have "\<dots> = Inl ValueError"
    by (simp only: upt for_each.simps step rbind_def sum.case)
  finally show ?thesis .
qed

lemma calc_mth_moment_step_length:
  "calc_mth_moment_step s m bw t a = Inr b \<Longrightarrow> length b = length a"
  by (auto simp: calc_mth_moment_step_def setitem_array_def rbind_def Let_def
      split: sum.splits list.splits dest: setitem_length)

lemma calc_mth_moment_length:
  "calc_mth_moment s m = Inr xs \<Longrightarrow> length xs = length (time s)"
  unfolding calc_mth_moment_def Let_def
  by (drule for_each_length [rotated]) (auto dest: calc_mth_moment_step_length simp: np_zeros_def)


lemma scenario_fields:
  "time scenario = [0]" "Nd scenario = [[0, 10, 5, 0]]" "spread scenario = [1, 1, 1, 1]"
  "bin_edges scenario = [0, 1, 2, 3, 4]" "diameter scenario = [1 / 2, 3 / 2, 5 / 2, 7 / 2]"
  by (simp_all add: scenario_def init_def)

lemma scenario_moment_raises:
  "calc_mth_moment (scenario\<lparr>Nt := a, W := b, D0 := c, Nw := d, Dmax := e, Dm := f\<rparr>) m =
     Inl ValueError"
  by (rule calc_mth_moment_raises) (simp_all add: scenario_fields)

lemma scenario_moment_spec:
  "moment_spec scenario 3 0 = 111.875" "moment_spec scenario 4 0 = 245.9375"
  by (simp_all add: moment_spec_def scenario_fields lessThan_Suc numeral_eq_Suc power3_eq_cube
      power4_eq_xxxx)

subsection \<open>The parameterization\<close>

lemma step_params_sized:
  assumes "params_sized T s"
  shows "params_sized T (snd (calc_dsd_parameterization_step t s))"
  using assms
  by (auto simp: calc_dsd_parameterization_step_def array_def rbind_def Let_def params_sized_def
      split: sum.splits dest: attr_set_length)

lemma calc_dsd_parameterization_sized:
  "params_sized (length (time s)) (snd (calc_dsd_parameterization method s))"
proof -
  let ?T = "length (time s)"
  let ?s0 = "s\<lparr>Nt := Some (np_zeros ?T), W := Some (np_zeros ?T), D0 := Some (np_zeros ?T),
                 Nw := Some (np_zeros ?T), Dmax := Some (np_zeros ?T), Dm := Some (np_zeros ?T)\<rparr>"
  have z: "params_sized ?T ?s0" by (simp add: params_sized_def np_zeros_def)
  show ?thesis
  proof (cases "rbind (calc_mth_moment ?s0 4) (\<lambda>m4. rbind (calc_mth_moment ?s0 3) (\<lambda>m3. np_divide m4 m3))")
    case (Inl e)
    then show ?thesis using z by (simp add: calc_dsd_parameterization_def Let_def)
  next
    case (Inr dm)
    then obtain m4 m3 where m4: "calc_mth_moment ?s0 4 = Inr m4" and m3: "calc_mth_moment ?s0 3 = Inr m3"
      and d: "np_divide m4 m3 = Inr dm"
      by (auto simp: rbind_def split: sum.splits)
    have "length m4 = ?T" "length m3 = ?T"
      using calc_mth_moment_length [OF m4] calc_mth_moment_length [OF m3] by simp_all
    then have "length dm = ?T" using np_divide_length [OF _ d] by simp
    then have "params_sized ?T (?s0\<lparr>Dm := Some dm\<rparr>)"
      by (simp add: params_sized_def np_zeros_def)
    then have "params_sized ?T (snd (for_range [0 ..< ?T] calc_dsd_parameterization_step (?s0\<lparr>Dm := Some dm\<rparr>)))"
      by (rule for_range_invariant [rotated]) (rule step_params_sized)
    then show ?thesis using Inr by (simp add: calc_dsd_parameterization_def Let_def)
  qed
qed


text \<open>
  Every pass through the loop raises: at the latest, the assignment to \<open>self.W[t]\<close>
  looks up the unbound name. Nothing but \<open>Nt\<close> is written before that.
\<close>

lemma step_raises: "fst (calc_dsd_parameterization_step t s) \<noteq> None"
  by (simp add: calc_dsd_parameterization_step_def array_def rbind_def Let_def split: sum.splits)

lemma step_keeps_W: "W (snd (calc_dsd_parameterization_step t s)) = W s"
  by (simp add: calc_dsd_parameterization_step_def array_def rbind_def Let_def split: sum.splits)

lemma calc_dsd_parameterization_raises:
  assumes "time s \<noteq> []"
  shows "fst (calc_dsd_parameterization method s) \<noteq> None"
proof -
  let ?T = "length (time s)"
  have upt: "[0 ..< ?T] = 0 # [1 ..< ?T]"
    using assms by (simp add: upt_conv_Cons)
  have loop: "fst (for_range [0 ..< ?T] calc_dsd_parameterization_step s') \<noteq> None" for s'
    unfolding upt by (rule for_range_first_raises [OF step_raises])
  show ?thesis
  proof (cases "rbind (calc_mth_moment
          (s\<lparr>Nt := Some (np_zeros ?T), W := Some (np_zeros ?T), D0 := Some (np_zeros ?T),
             Nw := Some (np_zeros ?T), Dmax := Some (np_zeros ?T), Dm := Some (np_zeros ?T)\<rparr>) 4)
          (\<lambda>m4. rbind (calc_mth_moment
          (s\<lparr>Nt := Some (np_zeros ?T), W := Some (np_zeros ?T), D0 := Some (np_zeros ?T),
             Nw := Some (np_zeros ?T), Dmax := Some (np_zeros ?T), Dm := Some (np_zeros ?T)\<rparr>) 3)
          (\<lambda>m3. np_divide m4 m3))")
    case (Inl e)
    then show ?thesis by (simp add: calc_dsd_parameterization_def Let_def)
  next
    case (Inr dm)
    then show ?thesis using loop by (simp add: calc_dsd_parameterization_def Let_def)
  qed
qed

lemma W_never_computed:
  "W (snd (calc_dsd_parameterization method s)) = Some (np_zeros (length (time s)))"
proof -
  have keep: "W (snd (for_range ts calc_dsd_parameterization_step s')) = Some z"
    if "W s' = Some z" for ts s' z
    using that by (rule for_range_invariant [rotated]) (simp add: step_keeps_W)
  show ?thesis
    by (simp add: calc_dsd_parameterization_def Let_def keep split: sum.splits)
qed

lemma scenario_parameterization:
  "calc_dsd_parameterization method scenario =
     (Some ValueError,
      scenario\<lparr>Nt := Some [Fin 0], W := Some [Fin 0], D0 := Some [Fin 0],
               Nw := Some [Fin 0], Dmax := Some [Fin 0], Dm := Some [Fin 0]\<rparr>)"
  by (simp add: calc_dsd_parameterization_def Let_def scenario_moment_raises rbind_def)
    (simp add: scenario_fields np_zeros_def zero_npfloat_def)

subsection \<open>The median volume diameter\<close>

lemma W_const_pos: "0 < W_const"
  by (simp add: W_const_def)

lemma water_terms_ok:
  "length N \<le> length (spread s) \<Longrightarrow> length N \<le> length (diameter s) \<Longrightarrow>
   water_terms s N = Inr (map (\<lambda>k. N ! k * spread s ! k * diameter s ! k ^ 3) [0 ..< length N])"
  by (simp add: water_terms_def)

lemma cum_W_nth:
  assumes "k < length N"
  shows "map (\<lambda>x. W_const * x)
           (np_cumsum (map (\<lambda>k. N ! k * spread s ! k * diameter s ! k ^ 3) [0 ..< length N])) ! k
         = cumW_spec W_const s N k"
proof -
  have "(\<Sum>j\<le>k. map (\<lambda>k. N ! k * spread s ! k * diameter s ! k ^ 3) [0 ..< length N] ! j) =
        (\<Sum>j\<le>k. N ! j * spread s ! j * diameter s ! j ^ 3)"
    using assms by (intro sum.cong) simp_all
  then show ?thesis
    using assms by (simp add: np_cumsum_def nth_cumsum_from cumW_spec_def)
qed

lemma cumW_spec_scale: "cumW_spec c s N k = c * cumW_spec 1 s N k"
  by (simp add: cumW_spec_def)

lemma slope_zero_width: "0 < x \<Longrightarrow> Fin y / (Fin x / Fin 0) = Fin 0"
  by (simp add: divide_npfloat_def)

lemma slope_finite: "0 < x \<Longrightarrow> dd \<noteq> 0 \<Longrightarrow> Fin y / (Fin x / Fin dd) = Fin (y / (x / dd))"
  by (simp add: divide_npfloat_def)

lemma interp_scale:
  assumes "0 < a" "0 < b" "lo < hi"
  shows "Fin (0.5 * (a * t) - a * lo) / (Fin (a * hi - a * lo) / Fin dd) =
         Fin (0.5 * (b * t) - b * lo) / (Fin (b * hi - b * lo) / Fin dd)"
proof -
  have a: "0 < a * hi - a * lo" using assms by (simp add: algebra_simps)
  have b: "0 < b * hi - b * lo" using assms by (simp add: algebra_simps)
  show ?thesis
  proof (cases "dd = 0")
    case True
    show ?thesis
      unfolding True by (simp only: slope_zero_width [OF a] slope_zero_width [OF b])
  next
    case False
    have "(0.5 * (a * t) - a * lo) / ((a * hi - a * lo) / dd) =
          (0.5 * (b * t) - b * lo) / ((b * hi - b * lo) / dd)"
    proof -
      have "(0.5 * (a * t) - a * lo) / ((a * hi - a * lo) / dd) = (a * (0.5 * t - lo)) / (a * ((hi - lo) / dd))"
        by (simp add: algebra_simps diff_divide_distrib)
      also have "\<dots> = (0.5 * t - lo) / ((hi - lo) / dd)"
        using assms(1) by simp
      also have "\<dots> = (b * (0.5 * t - lo)) / (b * ((hi - lo) / dd))"
        using assms(2) by simp
      also have "\<dots> = (0.5 * (b * t) - b * lo) / ((b * hi - b * lo) / dd)"
        by (simp add: algebra_simps diff_divide_distrib)
      finally show ?thesis .
    qed
    then show ?thesis
      by (simp only: slope_finite [OF a False] slope_finite [OF b False])
  qed
qed

lemma calculate_D0_cum:
  assumes "water_terms s N = Inr terms"
    and "cum = map (\<lambda>x. W_const * x) (np_cumsum terms)"
  shows "calculate_D0 s N =
     rbind (getitem cum (- 1)) (\<lambda>total.
     rbind (list_index (map (\<lambda>x. x < total * 0.5) cum) False) (\<lambda>k.
     rbind (getitem cum (int k - 1 + 1)) (\<lambda>cw_hi.
     rbind (getitem cum (int k - 1)) (\<lambda>cw_lo.
     rbind (getitem (diameter s) (int k - 1 + 1)) (\<lambda>d_hi.
     rbind (getitem (diameter s) (int k - 1)) (\<lambda>d_lo.
     rbind (getitem cum (- 1)) (\<lambda>total'.
     rbind (getitem cum (int k - 1)) (\<lambda>cw_lo'.
     rbind (getitem (diameter s) (int k - 1)) (\<lambda>d.
     Inr (Fin d + Fin (0.5 * total' - cw_lo') / (Fin (cw_hi - cw_lo) / Fin (d_hi - d_lo))))))))))))"
  unfolding calculate_D0_def assms Let_def
  by (simp only: rbind_def sum.case)

lemma nan_run: "Fin d + Fin (0.5 * 0 - 0) / (Fin (0 - 0) / Fin x) = NaN"
  by (simp add: divide_npfloat_def plus_npfloat_def)

lemma nonzero_zeros: "nonzero (replicate n 0) = []"
  by (simp add: nonzero_def filter_empty_conv)

lemma calculate_D0_zeros:
  assumes n: "0 < n" and sp: "n \<le> length (spread s)" and dm: "n \<le> length (diameter s)"
  shows "calculate_D0 s (replicate n 0) = Inr NaN"
proof -
  let ?N = "replicate n (0::real)"
  define cum where "cum = map (\<lambda>x. W_const * x)
           (np_cumsum (map (\<lambda>k. ?N ! k * spread s ! k * diameter s ! k ^ 3) [0 ..< length ?N]))"
  have sp': "length ?N \<le> length (spread s)" and dm': "length ?N \<le> length (diameter s)"
    using sp dm by simp_all
  have len: "length cum = n" by (simp add: cum_def np_cumsum_def)
  have nth: "cum ! j = 0" if "j < n" for j
  proof -
    have "j < length ?N" using that by simp
    then have "cum ! j = cumW_spec W_const s ?N j"
      unfolding cum_def by (rule cum_W_nth)
    also have "\<dots> = 0"
      using that by (simp add: cumW_spec_def)
    finally show ?thesis .
  qed
  have ne: "cum \<noteq> []" using len n by auto
  have n1: "n - 1 < n" using n by simp
  have total: "getitem cum (- 1) = Inr 0"
    by (simp only: getitem_last [OF ne] len nth [OF n1])
  have idx: "list_index (map (\<lambda>x. x < 0 * 0.5) cum) False = Inr 0"
  proof (rule list_index_first)
    show "0 < length (map (\<lambda>x. x < 0 * 0.5) cum)" using len n by simp
    show "map (\<lambda>x. x < 0 * 0.5) cum ! 0 = False" using len n nth [OF n] by simp
  qed simp
  have i0: "int 0 - 1 + 1 = int 0" and i1: "int 0 - 1 = - 1" by simp_all
  have c0: "getitem cum (int 0) = Inr 0"
    using getitem_nat [of 0 cum] len n nth [OF n] by simp
  have dne: "diameter s \<noteq> []" using dm n by auto
  have d0: "getitem (diameter s) (int 0) = Inr (diameter s ! 0)"
    by (rule getitem_nat) (use dm n in linarith)
  have dl: "getitem (diameter s) (- 1) = Inr (diameter s ! (length (diameter s) - 1))"
    by (rule getitem_last [OF dne])
  show ?thesis
    by (simp only: calculate_D0_cum [OF water_terms_ok [OF sp' dm'] cum_def]
        rbind_def sum.case total idx i0 c0 d0)
      (simp only: i1 total dl sum.case nan_run)
qed


text \<open>
  When the first bin already holds half of the water, the index \<open>-1\<close> makes the
  interpolation read the last entries of \<open>cum_W\<close> and of \<open>diameter\<close>.
\<close>

lemma calculate_D0_first_bin:
  assumes sp: "length N \<le> length (spread s)" and dm: "length N \<le> length (diameter s)"
    and ne: "N \<noteq> []"
    and first: "0.5 * cumW_spec W_const s N (length N - 1) \<le> cumW_spec W_const s N 0"
  shows "calculate_D0 s N =
     Inr (Fin (diameter s ! (length (diameter s) - 1)) +
          Fin (0.5 * cumW_spec W_const s N (length N - 1) - cumW_spec W_const s N (length N - 1)) /
            (Fin (cumW_spec W_const s N 0 - cumW_spec W_const s N (length N - 1)) /
             Fin (diameter s ! 0 - diameter s ! (length (diameter s) - 1))))"
proof -
  let ?n = "length N"
  let ?C = "cumW_spec W_const s N"
  define cum where "cum = map (\<lambda>x. W_const * x)
           (np_cumsum (map (\<lambda>k. N ! k * spread s ! k * diameter s ! k ^ 3) [0 ..< ?n]))"
  have n: "0 < ?n" using ne by simp
  have len: "length cum = ?n" by (simp add: cum_def np_cumsum_def)
  have nth: "cum ! j = ?C j" if "j < ?n" for j
    unfolding cum_def by (rule cum_W_nth [OF that])
  have cne: "cum \<noteq> []" using len n by auto
  have n1: "?n - 1 < ?n" using n by simp
  have total: "getitem cum (- 1) = Inr (?C (?n - 1))"
    by (simp only: getitem_last [OF cne] len nth [OF n1])
  have idx: "list_index (map (\<lambda>x. x < ?C (?n - 1) * 0.5) cum) False = Inr 0"
  proof (rule list_index_first)
    show "0 < length (map (\<lambda>x. x < ?C (?n - 1) * 0.5) cum)" using len n by simp
    show "map (\<lambda>x. x < ?C (?n - 1) * 0.5) cum ! 0 = False"
      using len n nth [OF n] first by (simp add: not_less)
  qed simp
  have i0: "int 0 - 1 + 1 = int 0" and i1: "int 0 - 1 = - 1" by simp_all
  have c0: "getitem cum (int 0) = Inr (?C 0)"
    using getitem_nat [of 0 cum] len n nth [OF n] by simp
  have dne: "diameter s \<noteq> []" using dm n by auto
  have d0: "getitem (diameter s) (int 0) = Inr (diameter s ! 0)"
    by (rule getitem_nat) (use dm n in linarith)
  have dl: "getitem (diameter s) (- 1) = Inr (diameter s ! (length (diameter s) - 1))"
    by (rule getitem_last [OF dne])
  show ?thesis
    by (simp only: calculate_D0_cum [OF water_terms_ok [OF sp dm] cum_def]
        rbind_def sum.case total idx i0 c0 d0)
      (simp only: i1 total dl sum.case)
qed

subsection \<open>The rain rate\<close>

lemma calculate_RR_step_ok:
  assumes t: "t < length (Nd s)" and row: "length (Nd s ! t) = length (diameter s)"
    and sp: "length (spread s) = length (diameter s)" and ne: "diameter s \<noteq> []"
    and rr: "rain_rate s = Some arr" and len: "t < length arr"
  shows "calculate_RR_step t s = (None, s\<lparr>rain_rate := Some (arr[t := rain_rate_spec s t])\<rparr>)"
proof -
  let ?n = "length (diameter s)"
  define vel where "vel = map (\<lambda>d. 9.65 - 10.3 * exp (- 0.6 * d)) (diameter s)"
  define prods where
    "prods = map (\<lambda>i. velocity_model s i * Nd s ! t ! i * spread s ! i * diameter s ! i ^ 3) [0 ..< ?n]"
  have n: "0 < ?n" using ne by simp
  have lv: "length vel = ?n" by (simp add: vel_def)
  have v: "vel[0 := 0.5] ! i = velocity_model s i" if "i < ?n" for i
  proof (cases "i = 0")
    case True
    with n lv show ?thesis by (simp add: velocity_model_def)
  next
    case False
    with that show ?thesis by (simp add: velocity_model_def vel_def)
  qed
  have si: "setitem vel 0 0.5 = Inr (vel[0 := 0.5])"
    using n lv by (simp add: setitem_def)
  have "mmultiply [vel[0 := 0.5], Nd s ! t, spread s, map (\<lambda>d. d ^ 3) (diameter s)] =
          Inr (map (\<lambda>i. vel[0 := 0.5] ! i * Nd s ! t ! i * spread s ! i * map (\<lambda>d. d ^ 3) (diameter s) ! i) [0 ..< ?n])"
    by (rule mmultiply4) (simp_all add: row sp lv)
  also have "map (\<lambda>i. vel[0 := 0.5] ! i * Nd s ! t ! i * spread s ! i * map (\<lambda>d. d ^ 3) (diameter s) ! i) [0 ..< ?n] = prods"
    unfolding prods_def using v by simp
  finally have mm: "mmultiply [vel[0 := 0.5], Nd s ! t, spread s, map (\<lambda>d. d ^ 3) (diameter s)] = Inr prods" .
  have g: "getitem (Nd s) (int t) = Inr (Nd s ! t)"
    using t by (simp add: getitem_def)
  have as: "attr_set (rain_rate s) t x = Inr (Some (arr[t := x]))" for x
    using len by (simp add: attr_set_def rr setitem_def rbind_def)
  have val: "0.6 * pi * (1 / 10 ^ 3) * sum_list prods = rain_rate_spec s t"
    unfolding prods_def rain_rate_spec_def sum_list_upt ..
  show ?thesis
    unfolding calculate_RR_step_def Let_def vel_def [symmetric]
    by (simp only: si rbind_def sum.case g mm as val)
qed

lemma calculate_RR_prefix:
  assumes nd: "length (Nd s) = length (time s)"
    and rows: "list_all (\<lambda>row. length row = length (diameter s)) (Nd s)"
    and sp: "length (spread s) = length (diameter s)" and ne: "diameter s \<noteq> []"
  shows "k \<le> length (time s) \<Longrightarrow>
     for_range [0 ..< k] calculate_RR_step (s\<lparr>rain_rate := Some (np_zeros (length (time s)))\<rparr>) =
       (None, s\<lparr>rain_rate := Some (map (rain_rate_spec s) [0 ..< k] @ replicate (length (time s) - k) 0)\<rparr>)"
proof (induction k)
  case 0
  then show ?case by (simp add: np_zeros_def)
next
  case (Suc k)
  let ?T = "length (time s)"
  let ?arr = "map (rain_rate_spec s) [0 ..< k] @ replicate (?T - k) 0"
  let ?st = "s\<lparr>rain_rate := Some ?arr\<rparr>"
  have k: "k < ?T" using Suc.prems by simp
  have row: "length (Nd s ! k) = length (diameter s)"
    using rows k nd by (simp add: list_all_length)
  have spec: "rain_rate_spec ?st k = rain_rate_spec s k"
    by (simp add: rain_rate_spec_def velocity_model_def cong: if_cong)
  have step: "calculate_RR_step k ?st = (None, ?st\<lparr>rain_rate := Some (?arr[k := rain_rate_spec ?st k])\<rparr>)"
    by (rule calculate_RR_step_ok) (use k nd row sp ne in simp_all)
  have upd: "?arr[k := rain_rate_spec s k] =
      map (rain_rate_spec s) [0 ..< Suc k] @ replicate (?T - Suc k) 0"
  proof -
    have "?T - k = Suc (?T - Suc k)" using k by simp
    then have "?arr = map (rain_rate_spec s) [0 ..< k] @ 0 # replicate (?T - Suc k) 0"
      by simp
    moreover have "length (map (rain_rate_spec s) [0 ..< k]) = k" by simp
    ultimately have "?arr[k := rain_rate_spec s k] =
        map (rain_rate_spec s) [0 ..< k] @ rain_rate_spec s k # replicate (?T - Suc k) 0"
      by (metis list_update_length)
    then show ?thesis by simp
  qed
  have "for_range [0 ..< Suc k] calculate_RR_step (s\<lparr>rain_rate := Some (np_zeros ?T)\<rparr>) =
      for_range [k] calculate_RR_step ?st"
    using Suc.IH k by (simp add: for_range_append)
  also have "\<dots> = (None, s\<lparr>rain_rate := Some (?arr[k := rain_rate_spec s k])\<rparr>)"
    by (simp add: step spec)
  finally show ?case by (simp only: upd)
qed


subsection \<open>Concrete values\<close>

lemma first_bin_heavy_fields:
  "spread first_bin_heavy = [1, 1, 1, 1]" "diameter first_bin_heavy = [1 / 2, 3 / 2, 5 / 2, 7 / 2]"
  by (simp_all add: first_bin_heavy_def init_def)

lemma first_bin_heavy_cumW:
  "cumW_spec c first_bin_heavy [100, 1, 0, 0] 0 = c * (25 / 2)"
  "cumW_spec c first_bin_heavy [100, 1, 0, 0] 3 = c * (127 / 8)"
  by (simp_all add: cumW_spec_def first_bin_heavy_fields atMost_Suc numeral_eq_Suc power3_eq_cube)

lemma scenario_cumW:
  "cumW_spec c scenario [0, 10, 5, 0] 0 = 0"
  "cumW_spec c scenario [0, 10, 5, 0] (Suc 0) = c * (135 / 4)"
  "cumW_spec c scenario [0, 10, 5, 0] 2 = c * (895 / 8)"
  "cumW_spec c scenario [0, 10, 5, 0] 3 = c * (895 / 8)"
  by (simp_all add: cumW_spec_def scenario_fields atMost_Suc numeral_eq_Suc power3_eq_cube)

lemma vol_constant_pos: "0 < vol_constant"
  by (simp add: vol_constant_def rho_w_def)

lemma scenario_half_mass_bin: "half_mass_bin vol_constant scenario [0, 10, 5, 0] 2"
proof -
  have n: "length [0, 10, 5, 0::real] - 1 = 3" by simp
  have lt: "cumW_spec vol_constant scenario [0, 10, 5, 0] j
          < 0.5 * cumW_spec vol_constant scenario [0, 10, 5, 0] 3" if "j < 2" for j
  proof -
    from that consider "j = 0" | "j = 1" by linarith
    then show ?thesis
      using vol_constant_pos by cases (simp_all add: scenario_cumW)
  qed
  have ge: "0.5 * cumW_spec vol_constant scenario [0, 10, 5, 0] 3
          \<le> cumW_spec vol_constant scenario [0, 10, 5, 0] 2"
    using vol_constant_pos by (simp add: scenario_cumW)
  have k: "2 < length [0, 10, 5, 0::real]" by simp
  show ?thesis
    unfolding half_mass_bin_def n
    using k ge lt by blast
qed

lemma scenario_D0_value: "D0_spec vol_constant scenario [0, 10, 5, 0] 1 = Fin (223 / 125)"
proof -
  have n: "length [0, 10, 5, 0::real] - 1 = 3" by simp
  have s: "(1::nat) + 1 = 2" by simp
  have c: "vol_constant \<noteq> 0" using vol_constant_pos by simp
  show ?thesis
    unfolding D0_spec_def n s
    using c
    by (simp add: scenario_cumW scenario_fields divide_npfloat_def plus_npfloat_def field_simps)
qed

lemma bin0_only_fields:
  "time bin0_only = [0]" "Nd bin0_only = [[8, 0, 0, 0]]" "spread bin0_only = [1, 1, 1, 1]"
  "diameter bin0_only = [1 / 2, 3 / 2, 5 / 2, 7 / 2]" "rain_rate bin0_only = Some [7]"
  by (simp_all add: bin0_only_def init_def)

lemma bin0_only_rain_rate: "rain_rate_spec bin0_only 0 = 0.6 * pi * (1 / 10 ^ 3) * 0.5"
  by (simp add: rain_rate_spec_def velocity_model_def bin0_only_fields lessThan_Suc numeral_eq_Suc
      power3_eq_cube)

lemma radar_case_fields:
  "rain_rate radar_case = Some [2, 5, 0]" "Zh radar_case = [10, 20, 30]"
  "Zdr radar_case = [10, - 1, 1]" "Kdp radar_case = [1, - 2, 3]"
  by (simp_all add: radar_case_def init_def)

lemma radar_case_rows:
  "kdp_rows radar_case [2, 5, 0] = [0]" "rain_rows [2, 5, 0] = [0, 1]"
  "radar_rows radar_case [2, 5, 0] = [0]"
  by (simp_all add: kdp_rows_def rain_rows_def radar_rows_def kept_def radar_case_fields upt_rec)

section \<open>The claims\<close>

text \<open>
  C1. The claim: for every object whose arrays have consistent lengths and every real
  exponent \<open>m\<close>, \<open>_calc_mth_moment(m)\<close> returns an array whose entry \<open>t\<close> is the
  sum over the bins of \<open>diameter_i^m * Nd[t,i] * spread_i\<close>. The code multiplies
  \<open>dmth\<close> with the whole matrix \<open>self.Nd\<close> and never sums, so it assigns a matrix to
  one array element: on the scenario of the specification, where the third moment of the
  only timestep is 111.875, the call raises \<open>ValueError\<close> and returns nothing.
\<close>

theorem calc_mth_moment_scenario_raises:
  "calc_mth_moment scenario 3 = Inl ValueError \<and> moment_spec scenario 3 0 = 111.875"
proof
  show "calc_mth_moment scenario 3 = Inl ValueError"
    by (rule calc_mth_moment_raises) (simp_all add: scenario_fields)
  show "moment_spec scenario 3 0 = 111.875"
    by (rule scenario_moment_spec)
qed

text \<open>
  C2. The claim: for a timestep whose distribution is entirely zero, the computations of
  \<open>D0\<close> and \<open>Dmax\<close> produce NaN or an explicit undefined result and do not raise.
  It fails for \<open>Dmax\<close>: \<open>__get_last_nonzero\<close> takes the maximum of an empty array of
  positions, which raises \<open>ValueError\<close>.
\<close>

theorem get_last_nonzero_all_zero_raises:
  "get_last_nonzero [0, 0, 0, 0] = Inl ValueError"
  by (simp add: get_last_nonzero_def nonzero_def np_max_def upt_rec)

text \<open>
  C2, as amended: for a distribution of \<open>n \<ge> 1\<close> bins that is entirely zero, with
  \<open>spread\<close> and \<open>diameter\<close> covering the \<open>n\<close> bins, \<open>_calculate_D0\<close> returns NaN
  without raising, and \<open>__get_last_nonzero\<close>, which \<open>Dmax\<close> is read through, raises
  \<open>ValueError\<close>.
\<close>

theorem degenerate_timestep:
  assumes "0 < n" "n \<le> length (spread s)" "n \<le> length (diameter s)"
  shows "calculate_D0 s (replicate n 0) = Inr NaN \<and>
         get_last_nonzero (replicate n 0) = Inl ValueError"
  using calculate_D0_zeros [OF assms]
  by (simp add: get_last_nonzero_def nonzero_zeros np_max_def)

theorem degenerate_timestep_witness:
  "(0::nat) < 4 \<and> 4 \<le> length (spread scenario) \<and> 4 \<le> length (diameter scenario) \<and>
   calculate_D0 scenario [0, 0, 0, 0] = Inr NaN \<and>
   get_last_nonzero [0, 0, 0, 0] = Inl ValueError"
proof -
  have h1: "(0::nat) < 4" by simp
  have h2: "4 \<le> length (spread scenario)" by (simp add: scenario_fields)
  have h3: "4 \<le> length (diameter scenario)" by (simp add: scenario_fields)
  have r: "replicate 4 (0::real) = [0, 0, 0, 0]" by (simp add: numeral_eq_Suc)
  show ?thesis
    using degenerate_timestep [OF h1 h2 h3] h2 h3 by (simp add: r)
qed

text \<open>
  C3. The claim: when the half-mass crossing falls in the very first bin, so that
  \<open>cross = -1\<close>, \<open>_calculate_D0\<close> interpolates from the left edge of bin 0 or flags the
  result, and reads no other bin. The code indexes with \<open>-1\<close>, which in Python is the
  last entry: with bin centres 0.5 to 3.5 and the concentrations 100, 1, 0, 0 the first bin
  holds more than half of the water, and the value returned, computed from the last
  bin's diameter 3.5 and cumulative content, is the negative diameter \<open>- 32 / 9\<close>.
\<close>

theorem calculate_D0_first_bin_reads_last_bin:
  "0.5 * cumW_spec W_const first_bin_heavy [100, 1, 0, 0] 3
     \<le> cumW_spec W_const first_bin_heavy [100, 1, 0, 0] 0 \<and>
   calculate_D0 first_bin_heavy [100, 1, 0, 0] = Inr (Fin (- 32 / 9))"
proof
  show "0.5 * cumW_spec W_const first_bin_heavy [100, 1, 0, 0] 3
     \<le> cumW_spec W_const first_bin_heavy [100, 1, 0, 0] 0"
    using W_const_pos by (simp add: first_bin_heavy_cumW)
  have terms: "water_terms first_bin_heavy [100, 1, 0, 0] = Inr [25 / 2, 27 / 8, 0, 0]"
    by (simp add: first_bin_heavy_fields water_terms_def upt_rec power3_eq_cube)
  have cums: "np_cumsum [25 / 2, 27 / 8, 0, 0] = [25 / 2, 127 / 8, 127 / 8, 127 / 8]"
    by (simp add: np_cumsum_def)
  have c: "0 < W_const" by (rule W_const_pos)
  then have lt: "\<not> W_const * 25 / 2 < W_const * 127 / 16" by (simp add: field_simps)
  show "calculate_D0 first_bin_heavy [100, 1, 0, 0] = Inr (Fin (- 32 / 9))"
    using c
    by (simp add: calculate_D0_def terms cums rbind_def getitem_def first_bin_heavy_fields lt
        divide_npfloat_def plus_npfloat_def field_simps)
qed

text \<open>
  C4. In each of the five relationship fits the rows are dropped jointly by the declared
  strict-positivity filters and never clamped: with a rain rate present and the radar
  arrays as long as it, \<open>calc_R_kdp_relationship\<close> hands the fit exactly the timesteps
  with \<open>Kdp > 0\<close> and \<open>rain_rate > 0\<close>, \<open>calc_R_Zh_relationship\<close> those with
  \<open>rain_rate > 0\<close>, and the three two-predictor fits those with \<open>rain_rate > 0\<close>,
  \<open>Zdr > 0\<close> and \<open>Kdp > 0\<close>; the values are passed unchanged except that \<open>Zh\<close> and
  \<open>Zdr\<close>, and never \<open>Kdp\<close>, go through \<open>10^(0.1 * x)\<close>.
\<close>

theorem fits_use_jointly_positive_rows:
  assumes rr: "rain_rate s = Some rr"
    and len: "length (Kdp s) = length rr" "length (Zh s) = length rr" "length (Zdr s) = length rr"
  shows
    "calc_R_kdp_relationship expfit s =
       Inr (expfit (map (\<lambda>t. Kdp s ! t) (kdp_rows s rr)) (map (\<lambda>t. rr ! t) (kdp_rows s rr))) \<and>
     calc_R_Zh_relationship expfit s =
       Inr (expfit (map (\<lambda>t. linear (Zh s ! t)) (rain_rows rr)) (map (\<lambda>t. rr ! t) (rain_rows rr))) \<and>
     calc_R_Zh_Zdr_relationship expfit2 s =
       Inr (expfit2 [map (\<lambda>t. linear (Zh s ! t)) (radar_rows s rr),
                     map (\<lambda>t. linear (Zdr s ! t)) (radar_rows s rr)]
                    (map (\<lambda>t. rr ! t) (radar_rows s rr))) \<and>
     calc_R_Zh_Kdp_relationship expfit2 s =
       Inr (expfit2 [map (\<lambda>t. linear (Zh s ! t)) (radar_rows s rr),
                     map (\<lambda>t. Kdp s ! t) (radar_rows s rr)]
                    (map (\<lambda>t. rr ! t) (radar_rows s rr))) \<and>
     calc_R_Zdr_Kdp_relationship expfit2 s =
       Inr (expfit2 [map (\<lambda>t. linear (Zdr s ! t)) (radar_rows s rr),
                     map (\<lambda>t. Kdp s ! t) (radar_rows s rr)]
                    (map (\<lambda>t. rr ! t) (radar_rows s rr)))"
proof (intro conjI)
  have f: "relationship_filt s rr =
     Inr (map (\<lambda>t. 0 < rr ! t \<and> 0 < Zdr s ! t \<and> 0 < Kdp s ! t) [0 ..< length rr])"
    using len by (simp add: relationship_filt_eq)
  show "calc_R_kdp_relationship expfit s =
       Inr (expfit (map (\<lambda>t. Kdp s ! t) (kdp_rows s rr)) (map (\<lambda>t. rr ! t) (kdp_rows s rr)))"
    using len
    by (simp add: calc_R_kdp_relationship_def rr and2_filt rbind_def bool_index_map kdp_rows_def)
  show "calc_R_Zh_relationship expfit s =
       Inr (expfit (map (\<lambda>t. linear (Zh s ! t)) (rain_rows rr)) (map (\<lambda>t. rr ! t) (rain_rows rr)))"
    using len
    by (simp add: calc_R_Zh_relationship_def rr rbind_def bool_index_greater0 rain_rows_def
        linear_def comp_def)
  show "calc_R_Zh_Zdr_relationship expfit2 s =
       Inr (expfit2 [map (\<lambda>t. linear (Zh s ! t)) (radar_rows s rr),
                     map (\<lambda>t. linear (Zdr s ! t)) (radar_rows s rr)]
                    (map (\<lambda>t. rr ! t) (radar_rows s rr)))"
    using len
    by (simp add: calc_R_Zh_Zdr_relationship_def rr f rbind_def bool_index_map radar_rows_def
        idb_def linear_def comp_def)
  show "calc_R_Zh_Kdp_relationship expfit2 s =
       Inr (expfit2 [map (\<lambda>t. linear (Zh s ! t)) (radar_rows s rr),
                     map (\<lambda>t. Kdp s ! t) (radar_rows s rr)]
                    (map (\<lambda>t. rr ! t) (radar_rows s rr)))"
    using len
    by (simp add: calc_R_Zh_Kdp_relationship_def rr f rbind_def bool_index_map radar_rows_def
        idb_def linear_def comp_def)
  show "calc_R_Zdr_Kdp_relationship expfit2 s =
       Inr (expfit2 [map (\<lambda>t. linear (Zdr s ! t)) (radar_rows s rr),
                     map (\<lambda>t. Kdp s ! t) (radar_rows s rr)]
                    (map (\<lambda>t. rr ! t) (radar_rows s rr)))"
    using len
    by (simp add: calc_R_Zdr_Kdp_relationship_def rr f rbind_def bool_index_map radar_rows_def
        idb_def linear_def comp_def)
qed

theorem fits_use_jointly_positive_rows_witness:
  "rain_rate radar_case = Some [2, 5, 0] \<and>
   length (Kdp radar_case) = length [2, 5, 0 :: real] \<and>
   length (Zh radar_case) = length [2, 5, 0 :: real] \<and>
   length (Zdr radar_case) = length [2, 5, 0 :: real] \<and>
   calc_R_kdp_relationship Pair radar_case = Inr ([1], [2]) \<and>
   calc_R_Zh_relationship Pair radar_case = Inr ([10, 100], [2, 5]) \<and>
   calc_R_Zh_Zdr_relationship Pair radar_case = Inr ([[10], [10]], [2]) \<and>
   calc_R_Zh_Kdp_relationship Pair radar_case = Inr ([[10], [1]], [2]) \<and>
   calc_R_Zdr_Kdp_relationship Pair radar_case = Inr ([[10], [1]], [2])"
proof -
  have h1: "rain_rate radar_case = Some [2, 5, 0]" by (simp add: radar_case_fields)
  have h2: "length (Kdp radar_case) = length [2, 5, 0 :: real]" by (simp add: radar_case_fields)
  have h3: "length (Zh radar_case) = length [2, 5, 0 :: real]" by (simp add: radar_case_fields)
  have h4: "length (Zdr radar_case) = length [2, 5, 0 :: real]" by (simp add: radar_case_fields)
  show ?thesis
    using fits_use_jointly_positive_rows [OF h1 h2 h3 h4, of Pair Pair]
    by (simp add: radar_case_rows radar_case_fields linear_def)
qed

text \<open>
  C5. For an object with one row of \<open>Nd\<close> per timestep, every row, \<open>spread\<close> and
  \<open>diameter\<close> of the same length and at least one bin, \<open>calculate_RR\<close> returns normally
  and sets \<open>rain_rate[t]\<close>, for every timestep, to
  \<open>0.6 * pi * 1e-3 * \<Sum>\<^sub>i v_i * Nd[t,i] * spread_i * diameter_i^3\<close> with the velocity
  \<open>9.65 - 10.3 * exp (-0.6 * diameter_i)\<close> in every bin but the first, where it is 0.5;
  the result does not depend on the rain rate the object held before.
\<close>

theorem calculate_RR_sets_rain_rate:
  assumes "length (Nd s) = length (time s)"
    and "list_all (\<lambda>row. length row = length (diameter s)) (Nd s)"
    and "length (spread s) = length (diameter s)" and "diameter s \<noteq> []"
  shows "calculate_RR s =
           (None, s\<lparr>rain_rate := Some (map (rain_rate_spec s) [0 ..< length (time s)])\<rparr>) \<and>
         calculate_RR (s\<lparr>rain_rate := r\<rparr>) = calculate_RR s"
proof
  show "calculate_RR s =
          (None, s\<lparr>rain_rate := Some (map (rain_rate_spec s) [0 ..< length (time s)])\<rparr>)"
    using calculate_RR_prefix [OF assms, of "length (time s)"]
    by (simp add: calculate_RR_def)
  show "calculate_RR (s\<lparr>rain_rate := r\<rparr>) = calculate_RR s"
    by (simp add: calculate_RR_def)
qed

theorem calculate_RR_sets_rain_rate_witness:
  "length (Nd bin0_only) = length (time bin0_only) \<and>
   list_all (\<lambda>row. length row = length (diameter bin0_only)) (Nd bin0_only) \<and>
   length (spread bin0_only) = length (diameter bin0_only) \<and> diameter bin0_only \<noteq> [] \<and>
   rain_rate bin0_only = Some [7] \<and>
   calculate_RR bin0_only =
     (None, bin0_only\<lparr>rain_rate := Some [0.6 * pi * (1 / 10 ^ 3) * 0.5]\<rparr>)"
proof -
  have h1: "length (Nd bin0_only) = length (time bin0_only)" by (simp add: bin0_only_fields)
  have h2: "list_all (\<lambda>row. length row = length (diameter bin0_only)) (Nd bin0_only)"
    by (simp add: bin0_only_fields)
  have h3: "length (spread bin0_only) = length (diameter bin0_only)"
    by (simp add: bin0_only_fields)
  have h4: "diameter bin0_only \<noteq> []" by (simp add: bin0_only_fields)
  have t: "[0 ..< length (time bin0_only)] = [0]" by (simp add: bin0_only_fields)
  have "calculate_RR bin0_only =
     (None, bin0_only\<lparr>rain_rate := Some [0.6 * pi * (1 / 10 ^ 3) * 0.5]\<rparr>)"
    using calculate_RR_sets_rain_rate [OF h1 h2 h3 h4]
    by (simp only: t list.map bin0_only_rain_rate)
  with h1 h2 h3 h4 show ?thesis
    by (simp only: bin0_only_fields simp_thms)
qed

text \<open>
  C6. The claim: for every timestep, \<open>calc_dsd_parameterization\<close> sets \<open>Dm[t]\<close> to
  \<open>moment(4)[t] / moment(3)[t]\<close>, with NaN where the third moment is zero. On the
  scenario of the specification, where the quotient is \<open>245.9375 / 111.875\<close>, the call
  to \<open>_calc_mth_moment\<close> raises \<open>ValueError\<close> before \<open>Dm\<close> is assigned, and \<open>Dm\<close>
  is left holding its initial zero.
\<close>

theorem calc_dsd_parameterization_leaves_Dm_zero:
  "fst (calc_dsd_parameterization ''bringi'' scenario) = Some ValueError \<and>
   Dm (snd (calc_dsd_parameterization ''bringi'' scenario)) = Some [Fin 0] \<and>
   moment_spec scenario 4 0 / moment_spec scenario 3 0 = 245.9375 / 111.875"
  by (simp add: scenario_parameterization scenario_moment_spec)

text \<open>
  C7. The claim: \<open>calc_dsd_parameterization\<close> computes
  \<open>W[t] = C_w * \<Sum>\<^sub>i Nd[t,i] * spread_i * diameter_i^3\<close> with \<open>C_w = 1e-2 * pi / 6\<close>, and
  the same constant scales the cumulative curve of \<open>_calculate_D0\<close>. In the code the
  constant of \<open>W\<close> is \<open>1e-2 * pi / 6\<close> and that of \<open>_calculate_D0\<close> is
  \<open>1e-3 * pi / 6\<close>; and on no object does \<open>W\<close> receive a value, since the assignment
  to \<open>W[t]\<close> looks up the unbound name \<open>array\<close>: \<open>W\<close> keeps its initial zeros, and
  on the scenario of the specification the call ends in an exception.
\<close>

theorem water_content_constants_differ:
  "vol_constant = 1 / 100 * (pi / 6) \<and> W_const = 1 / 1000 * (pi / 6) \<and>
   W_const \<noteq> vol_constant \<and>
   W (snd (calc_dsd_parameterization method s)) = Some (np_zeros (length (time s))) \<and>
   fst (calc_dsd_parameterization method scenario) = Some ValueError"
  by (simp add: vol_constant_def W_const_def rho_w_def W_never_computed scenario_parameterization)

text \<open>
  C8. For a distribution whose half-mass crossing lies beyond the first bin (which
  excludes the all-zero distribution), \<open>_calculate_D0\<close> returns
  \<open>diameter[cross] + (0.5 * cumW[N-1] - cumW[cross]) /
     ((cumW[cross+1] - cumW[cross]) / (diameter[cross+1] - diameter[cross]))\<close>
  where \<open>cumW[k] = C_w * \<Sum>\<^sub>j\<^sub>\<le>\<^sub>k Nd[t,j] * spread_j * diameter_j^3\<close> and \<open>cross\<close> is
  one less than the smallest \<open>k\<close> with \<open>cumW[k] \<ge> 0.5 * cumW[N-1]\<close>. The value is
  the same for every positive constant \<open>C_w\<close>, the \<open>1e-2 * pi / 6\<close> of the
  specification and the \<open>1e-3 * pi / 6\<close> of the code among them.
\<close>

theorem calculate_D0_interpolates:
  assumes c: "0 < c"
    and sp: "length N \<le> length (spread s)" and dm: "length N \<le> length (diameter s)"
    and hm: "half_mass_bin c s N k" and k: "0 < k"
  shows "calculate_D0 s N = Inr (D0_spec c s N (k - 1))"
proof -
  let ?n = "length N"
  let ?S = "cumW_spec 1 s N"
  define cum where "cum = map (\<lambda>x. W_const * x)
           (np_cumsum (map (\<lambda>k. N ! k * spread s ! k * diameter s ! k ^ 3) [0 ..< ?n]))"
  have kn: "k < ?n" using hm by (simp add: half_mass_bin_def)
  then have n: "0 < ?n" by linarith
  have len: "length cum = ?n" by (simp add: cum_def np_cumsum_def)
  have nth: "cum ! j = W_const * ?S j" if "j < ?n" for j
    unfolding cum_def cum_W_nth [OF that] by (rule cumW_spec_scale)
  have ge: "0.5 * ?S (?n - 1) \<le> ?S k"
    using hm c cumW_spec_scale [of c s N] by (simp add: half_mass_bin_def)
  have lt: "?S j < 0.5 * ?S (?n - 1)" if "j < k" for j
    using hm c that cumW_spec_scale [of c s N] by (simp add: half_mass_bin_def)
  have ne: "cum \<noteq> []" using len n by auto
  have n1: "?n - 1 < ?n" using n by simp
  have total: "getitem cum (- 1) = Inr (W_const * ?S (?n - 1))"
    by (simp only: getitem_last [OF ne] len nth [OF n1])
  have idx: "list_index (map (\<lambda>x. x < W_const * ?S (?n - 1) * 0.5) cum) False = Inr k"
  proof (rule list_index_first)
    show "k < length (map (\<lambda>x. x < W_const * ?S (?n - 1) * 0.5) cum)"
      using kn len by simp
    show "map (\<lambda>x. x < W_const * ?S (?n - 1) * 0.5) cum ! k = False"
      using kn len nth [OF kn] ge W_const_pos by (simp add: not_less)
    show "map (\<lambda>x. x < W_const * ?S (?n - 1) * 0.5) cum ! j \<noteq> False" if "j < k" for j
    proof -
      have "j < ?n" using that kn by simp
      then show ?thesis
        using len nth [of j] lt [OF that] W_const_pos by simp
    qed
  qed
  have k1: "k - 1 < ?n" using kn by simp
  have ik: "int k - 1 + 1 = int k" by simp
  have ik1: "int k - 1 = int (k - 1)" using k by simp
  have hi: "getitem cum (int k) = Inr (W_const * ?S k)"
    using getitem_nat [of k cum] kn len nth [OF kn] by simp
  have lo: "getitem cum (int (k - 1)) = Inr (W_const * ?S (k - 1))"
    using getitem_nat [of "k - 1" cum] k1 len nth [OF k1] by simp
  have dhi: "getitem (diameter s) (int k) = Inr (diameter s ! k)"
    using kn dm by (simp add: getitem_nat)
  have dlo: "getitem (diameter s) (int (k - 1)) = Inr (diameter s ! (k - 1))"
    using k1 dm by (simp add: getitem_nat)
  have code: "calculate_D0 s N =
      Inr (Fin (diameter s ! (k - 1)) +
           Fin (0.5 * (W_const * ?S (?n - 1)) - W_const * ?S (k - 1)) /
             (Fin (W_const * ?S k - W_const * ?S (k - 1)) /
              Fin (diameter s ! k - diameter s ! (k - 1))))"
    by (simp only: calculate_D0_cum [OF water_terms_ok [OF sp dm] cum_def]
        rbind_def sum.case total idx ik hi dhi)
      (simp only: ik1 lo dlo sum.case)
  have inc: "?S (k - 1) < ?S k"
    using lt [of "k - 1"] ge k by simp
  have sk: "k - 1 + 1 = k" using k by simp
  have spec: "D0_spec c s N (k - 1) =
      Fin (diameter s ! (k - 1)) +
           Fin (0.5 * (c * ?S (?n - 1)) - c * ?S (k - 1)) /
             (Fin (c * ?S k - c * ?S (k - 1)) /
              Fin (diameter s ! k - diameter s ! (k - 1)))"
    unfolding D0_spec_def sk
    by (simp only: cumW_spec_scale [of c s N])
  show ?thesis
    unfolding code spec
    by (simp only: interp_scale [OF W_const_pos c inc])
qed

theorem calculate_D0_interpolates_witness:
  "0 < vol_constant \<and> length [0, 10, 5, 0 :: real] \<le> length (spread scenario) \<and>
   length [0, 10, 5, 0 :: real] \<le> length (diameter scenario) \<and>
   half_mass_bin vol_constant scenario [0, 10, 5, 0] 2 \<and> (0::nat) < 2 \<and>
   calculate_D0 scenario [0, 10, 5, 0] = Inr (D0_spec vol_constant scenario [0, 10, 5, 0] 1) \<and>
   calculate_D0 scenario [0, 10, 5, 0] = Inr (Fin (223 / 125))"
proof -
  have h2: "length [0, 10, 5, 0 :: real] \<le> length (spread scenario)"
    by (simp add: scenario_fields)
  have h3: "length [0, 10, 5, 0 :: real] \<le> length (diameter scenario)"
    by (simp add: scenario_fields)
  have h5: "(0::nat) < 2" by simp
  show ?thesis
    using calculate_D0_interpolates [OF vol_constant_pos h2 h3 scenario_half_mass_bin h5]
      vol_constant_pos h2 h3 scenario_half_mass_bin
    by (simp add: scenario_D0_value [unfolded One_nat_def])
qed

text \<open>
  C9. The claim: right after construction every derived field, \<open>Zh\<close>, \<open>Zdr\<close>,
  \<open>Kdp\<close>, \<open>Ai\<close> and the parameters \<open>Nt\<close>, \<open>W\<close>, \<open>D0\<close>, \<open>Nw\<close>, \<open>Dmax\<close>,
  \<open>Dm\<close>, exists as a zero-filled array of length \<open>T\<close>. The constructor creates the
  four radar arrays only: on the object of the scenario none of the six parameters exists.
\<close>

theorem init_creates_no_parameters:
  "Nt scenario = None \<and> W scenario = None \<and> D0 scenario = None \<and>
   Nw scenario = None \<and> Dmax scenario = None \<and> Dm scenario = None"
  by (simp add: scenario_def init_def)

text \<open>
  C9, as amended: right after construction with a time array of length \<open>T\<close>, the
  fields \<open>Zh\<close>, \<open>Zdr\<close>, \<open>Kdp\<close> and \<open>Ai\<close> exist as zero-filled arrays of length
  \<open>T\<close> and the parameters \<open>Nt\<close>, \<open>W\<close>, \<open>D0\<close>, \<open>Nw\<close>, \<open>Dmax\<close> and \<open>Dm\<close> do not
  exist; a call of \<open>calc_dsd_parameterization\<close> creates each of the six as an array of
  length \<open>T\<close>.
\<close>

theorem init_and_parameterization_fields:
  "Zh (init tm nd sp rr v z np be d) = replicate (length tm) 0 \<and>
   Zdr (init tm nd sp rr v z np be d) = replicate (length tm) 0 \<and>
   Kdp (init tm nd sp rr v z np be d) = replicate (length tm) 0 \<and>
   Ai (init tm nd sp rr v z np be d) = replicate (length tm) 0 \<and>
   Nt (init tm nd sp rr v z np be d) = None \<and> W (init tm nd sp rr v z np be d) = None \<and>
   D0 (init tm nd sp rr v z np be d) = None \<and> Nw (init tm nd sp rr v z np be d) = None \<and>
   Dmax (init tm nd sp rr v z np be d) = None \<and> Dm (init tm nd sp rr v z np be d) = None \<and>
   params_sized (length tm)
     (snd (calc_dsd_parameterization method (init tm nd sp rr v z np be d)))"
proof -
  have "time (init tm nd sp rr v z np be d) = tm" by (simp add: init_def Let_def)
  then have "params_sized (length tm)
     (snd (calc_dsd_parameterization method (init tm nd sp rr v z np be d)))"
    using calc_dsd_parameterization_sized [of "init tm nd sp rr v z np be d" "method"] by simp
  then show ?thesis
    by (simp add: init_def Let_def np_zeros_def)
qed

text \<open>
  C10. Two runs of \<open>calc_dsd_parameterization\<close> on the same object that differ only
  in the \<open>method\<close> argument end alike, in the exception raised as in every array
  written: the argument has no influence.
\<close>

theorem calc_dsd_parameterization_ignores_method:
  "calc_dsd_parameterization method s = calc_dsd_parameterization method' s"
  by (simp add: calc_dsd_parameterization_def)

end
